theory Spec2Isabelle
  imports Complex_Main
begin

section \<open>Shared values: JSON documents, exceptions, HTTP messages\<close>

text \<open>
  The service (\<^verbatim>\<open>app/main.py\<close>) and the load driver (\<^verbatim>\<open>tests/loadtest.py\<close>) exchange
  JSON documents over HTTP. A Python exception is a value carrying the text that
  \<^verbatim>\<open>str(e)\<close> yields. Both \<^verbatim>\<open>except Exception\<close> clauses of the sources catch every
  exception derived from \<^verbatim>\<open>Exception\<close>, which is what the database driver, the HTTP
  client, JSON decoding and subscripting raise; that is the class modelled here.
\<close>

datatype json =
    JNull
  | JBool bool
  | JInt int
  | JStr string
  | JList "json list"
  | JObj "(string \<times> json) list"

datatype py_exception = PyException (exc_str: string)

record request =
  req_method :: string
  url_path :: string

record response =
  status_code :: nat
  content :: json

section \<open>Metric collectors (\<^verbatim>\<open>app/main.py\<close>, lines 26 to 37)\<close>

text \<open>
  A label combination is the triple passed to \<^verbatim>\<open>.labels(...)\<close>, in the order of the
  declared label names \<^verbatim>\<open>["method", "endpoint", "http_status"]\<close>. A collector keeps one
  child per label combination that has been used; a combination never used has no child.
  The library keeps every label value as its string; the status stays a number here,
  since distinct status codes have distinct strings.
\<close>

type_synonym labels = "string \<times> string \<times> nat"

datatype bound = Le rat | PInf

fun le_bound :: "rat \<Rightarrow> bound \<Rightarrow> bool" where
  "le_bound v (Le b) = (v \<le> b)"
| "le_bound v PInf = True"

record histogram =
  hist_name :: string
  documentation :: string
  labelnames :: "string list"
  upper_bounds :: "bound list"

text \<open>
  The library constructor \<^verbatim>\<open>Histogram(name, documentation, labelnames, buckets=...)\<close>
  keeps the bucket boundaries it is given and closes them with \<^verbatim>\<open>+Inf\<close>.
\<close>

definition Histogram :: "string \<Rightarrow> string \<Rightarrow> string list \<Rightarrow> rat list \<Rightarrow> histogram" where
  "Histogram nm doc lbls buckets =
     \<lparr>hist_name = nm, documentation = doc, labelnames = lbls,
      upper_bounds = map Le buckets @ [PInf]\<rparr>"

definition REQUEST_LATENCY :: histogram where
  "REQUEST_LATENCY =
     Histogram ''http_request_duration_seconds'' ''HTTP request latency''
       [''method'', ''endpoint'', ''http_status'']
       [1 / 10, 3 / 10, 1 / 2, 1, 3, 5]"

definition REQUEST_COUNT_labelnames :: "string list" where
  "REQUEST_COUNT_labelnames = [''method'', ''endpoint'', ''http_status'']"

text \<open>A histogram child: one count per bucket (not cumulative) and the sum of the observations.\<close>

record hist_child =
  bucket_counts :: "nat list"
  hist_sum :: rat

definition new_child :: "histogram \<Rightarrow> hist_child" where
  "new_child h = \<lparr>bucket_counts = replicate (length (upper_bounds h)) 0, hist_sum = 0\<rparr>"

text \<open>\<^verbatim>\<open>observe\<close> adds the value to the sum and counts it in the first bucket that holds it.\<close>

fun count_in_bucket :: "rat \<Rightarrow> bound list \<Rightarrow> nat list \<Rightarrow> nat list" where
  "count_in_bucket v (b # bs) (c # cs) =
     (if le_bound v b then Suc c # cs else c # count_in_bucket v bs cs)"
| "count_in_bucket v _ cs = cs"

definition observe :: "histogram \<Rightarrow> rat \<Rightarrow> hist_child \<Rightarrow> hist_child" where
  "observe h v c =
     \<lparr>bucket_counts = count_in_bucket v (upper_bounds h) (bucket_counts c),
      hist_sum = hist_sum c + v\<rparr>"

record metrics =
  REQUEST_COUNT :: "labels \<rightharpoonup> nat"
  REQUEST_LATENCY_children :: "labels \<rightharpoonup> hist_child"
  IN_PROGRESS :: int

definition fresh_metrics :: metrics where
  "fresh_metrics =
     \<lparr>REQUEST_COUNT = Map.empty, REQUEST_LATENCY_children = Map.empty, IN_PROGRESS = 0\<rparr>"

definition counter_value :: "metrics \<Rightarrow> labels \<Rightarrow> nat" where
  "counter_value m l = (case REQUEST_COUNT m l of None \<Rightarrow> 0 | Some n \<Rightarrow> n)"

definition observation_count :: "metrics \<Rightarrow> labels \<Rightarrow> nat" where
  "observation_count m l =
     (case REQUEST_LATENCY_children m l of None \<Rightarrow> 0 | Some c \<Rightarrow> sum_list (bucket_counts c))"

definition counter_labels_inc :: "labels \<Rightarrow> metrics \<Rightarrow> metrics" where
  "counter_labels_inc l m =
     m\<lparr>REQUEST_COUNT :=
         (REQUEST_COUNT m)(l \<mapsto> (case REQUEST_COUNT m l of None \<Rightarrow> 0 | Some n \<Rightarrow> n) + 1)\<rparr>"

definition latency_labels_observe :: "labels \<Rightarrow> rat \<Rightarrow> metrics \<Rightarrow> metrics" where
  "latency_labels_observe l v m =
     m\<lparr>REQUEST_LATENCY_children :=
         (REQUEST_LATENCY_children m)(l \<mapsto>
            observe REQUEST_LATENCY v
              (case REQUEST_LATENCY_children m l of
                 None \<Rightarrow> new_child REQUEST_LATENCY | Some c \<Rightarrow> c))\<rparr>"

section \<open>The metrics middleware (\<^verbatim>\<open>app/main.py\<close>, lines 50 to 65)\<close>

text \<open>
  \<^verbatim>\<open>call_next\<close> runs the rest of the application on the request. It either returns a
  response (also for an \<^verbatim>\<open>HTTPException\<close>, which the framework turns into a response
  below the middleware) or raises the exception the handler left unhandled. The handler
  runs while the collectors are in the state the middleware left them in, so
  \<^verbatim>\<open>call_next\<close> is given that state. The two readings of the clock are parameters.

  The body is a straight line: there is no \<^verbatim>\<open>try\<close> around \<^verbatim>\<open>await call_next(request)\<close>,
  so an exception leaves the function at line 54 and lines 55 to 65 do not run.
\<close>

definition metrics_middleware ::
  "(metrics \<Rightarrow> request \<Rightarrow> py_exception + response) \<Rightarrow> rat \<Rightarrow> rat \<Rightarrow>
   request \<Rightarrow> metrics \<Rightarrow> (py_exception + response) \<times> metrics" where
  "metrics_middleware call_next t_start t_end rq m =
     (let m1 = m\<lparr>IN_PROGRESS := IN_PROGRESS m + 1\<rparr>;
          start = t_start
      in case call_next m1 rq of
           Inl e \<Rightarrow> (Inl e, m1)
         | Inr rsp \<Rightarrow>
             (let latency = t_end - start;
                  m2 = counter_labels_inc (req_method rq, url_path rq, status_code rsp) m1;
                  m3 = latency_labels_observe (req_method rq, url_path rq, status_code rsp) latency m2;
                  m4 = m3\<lparr>IN_PROGRESS := IN_PROGRESS m3 - 1\<rparr>
              in (Inr rsp, m4)))"

text \<open>
  The route table, from the decorators of \<^verbatim>\<open>app/main.py\<close>. A template segment in braces
  matches any non-empty path segment.
\<close>

definition routes :: "(string \<times> string) list" where
  "routes =
     [(''POST'', ''/data''), (''GET'', ''/data''),
      (''PUT'', ''/data/{item_id}''), (''DELETE'', ''/data/{item_id}''),
      (''GET'', ''/metrics''), (''GET'', ''/health'')]"

fun split_path :: "string \<Rightarrow> string \<Rightarrow> string list" where
  "split_path acc [] = [rev acc]"
| "split_path acc (c # cs) =
     (if c = CHR ''/'' then rev acc # split_path [] cs else split_path (c # acc) cs)"

definition segment_matches :: "string \<Rightarrow> string \<Rightarrow> bool" where
  "segment_matches t s =
     (if t \<noteq> [] \<and> hd t = CHR ''{'' \<and> last t = CHR ''}'' then s \<noteq> [] else t = s)"

definition template_matches :: "string \<Rightarrow> string \<Rightarrow> bool" where
  "template_matches t p =
     (let ts = split_path [] t; ps = split_path [] p
      in length ts = length ps \<and> list_all2 segment_matches ts ps)"

definition route_template :: "request \<Rightarrow> string option" where
  "route_template rq =
     map_option snd
       (find (\<lambda>(m, t). m = req_method rq \<and> template_matches t (url_path rq)) routes)"

text \<open>
  Requests served one after the other by the same handler, each with its two readings of
  the clock: the collectors left by one request are those the next one starts from.
\<close>

fun serve_all ::
  "(request \<Rightarrow> py_exception + response) \<Rightarrow> (request \<times> rat \<times> rat) list \<Rightarrow>
   metrics \<Rightarrow> metrics" where
  "serve_all handler [] m = m"
| "serve_all handler ((rq, t_start, t_end) # rest) m =
     serve_all handler rest (snd (metrics_middleware (\<lambda>_. handler) t_start t_end rq m))"

definition raised ::
  "(request \<Rightarrow> py_exception + response) \<Rightarrow> (request \<times> rat \<times> rat) \<Rightarrow> bool" where
  "raised handler x = isl (handler (fst x))"

definition answered_as ::
  "(request \<Rightarrow> py_exception + response) \<Rightarrow> labels \<Rightarrow> (request \<times> rat \<times> rat) \<Rightarrow> bool" where
  "answered_as handler l x =
     (case handler (fst x) of
        Inl e \<Rightarrow> False
      | Inr rsp \<Rightarrow> l = (req_method (fst x), url_path (fst x), status_code rsp))"

section \<open>The store and the CRUD endpoints (\<^verbatim>\<open>app/main.py\<close>, lines 69 to 89)\<close>

text \<open>
  \<^verbatim>\<open>schemas.UserDataCreate\<close> is the request body and \<^verbatim>\<open>schemas.UserData\<close> the stored record:
  the same three fields and the identifier the store assigns. The store is the sequence
  of records in storage order.
\<close>

record user_data_create =
  name :: string
  email :: string
  message :: string

record user_data = user_data_create +
  rec_id :: int

type_synonym db = "user_data list"

definition user_data_json :: "user_data \<Rightarrow> json" where
  "user_data_json u =
     JObj [(''name'', JStr (name u)), (''email'', JStr (email u)),
           (''message'', JStr (message u)), (''id'', JInt (rec_id u))]"

text \<open>
  Modelled from the spec: \<^verbatim>\<open>crud.get_user_data\<close>, of the module \<^verbatim>\<open>app/crud.py\<close> that is
  not among the sources. The spec (4.4, list): returns up to \<open>limit\<close> records starting
  after \<open>skip\<close>, in storage order. The spec leaves negative values open; they are read
  as 0 here, and nothing below evaluates this function at a negative argument.
\<close>

definition get_user_data :: "db \<Rightarrow> int \<Rightarrow> int \<Rightarrow> user_data list" where
  "get_user_data d skip limit = take (nat limit) (drop (nat skip) d)"

text \<open>
  Modelled from the spec: \<^verbatim>\<open>crud.update_user_data\<close>, of the absent module \<^verbatim>\<open>app/crud.py\<close>.
  The spec (4.4, update): replaces all mutable fields of the record matching the id, and
  reports that no such id exists otherwise. The result is the updated record, or
  \<open>None\<close> for Python's \<^verbatim>\<open>None\<close>, with the store after the call.
\<close>

fun update_user_data :: "db \<Rightarrow> int \<Rightarrow> user_data_create \<Rightarrow> user_data option \<times> db" where
  "update_user_data [] item_id data = (None, [])"
| "update_user_data (u # us) item_id data =
     (if rec_id u = item_id
      then (let u' = \<lparr>name = name data, email = email data, message = message data,
                       rec_id = rec_id u\<rparr>
            in (Some u', u' # us))
      else (case update_user_data us item_id data of (r, us') \<Rightarrow> (r, u # us')))"

text \<open>
  Modelled from the spec: \<^verbatim>\<open>crud.delete_user_data\<close>, of the absent module \<^verbatim>\<open>app/crud.py\<close>.
  The spec (4.4, delete): removes the record matching the id and returns the deleted
  record, and reports that no such id exists otherwise.
\<close>

fun delete_user_data :: "db \<Rightarrow> int \<Rightarrow> user_data option \<times> db" where
  "delete_user_data [] item_id = (None, [])"
| "delete_user_data (u # us) item_id =
     (if rec_id u = item_id then (Some u, us)
      else (case delete_user_data us item_id of (r, us') \<Rightarrow> (r, u # us')))"

text \<open>
  The endpoints take the function of the absent \<^verbatim>\<open>crud\<close> module they call as a parameter.
  A handler either returns a value, which the framework sends with the status code of
  the route, or raises \<^verbatim>\<open>HTTPException(status, detail)\<close>, which the framework sends as
  that status with the body \<^verbatim>\<open>{"detail": detail}\<close>.
\<close>

datatype http_exception = HTTPException nat string

definition send :: "nat \<Rightarrow> http_exception + json \<Rightarrow> response" where
  "send route_status r =
     (case r of
        Inl (HTTPException st detail) \<Rightarrow>
          \<lparr>status_code = st, content = JObj [(''detail'', JStr detail)]\<rparr>
      | Inr j \<Rightarrow> \<lparr>status_code = route_status, content = j\<rparr>)"

text \<open>\<^verbatim>\<open>read_data(skip: int = 0, limit: int = 100, db)\<close>: a query parameter that is absent
  takes its default.\<close>

definition read_data ::
  "(db \<Rightarrow> int \<Rightarrow> int \<Rightarrow> 'r) \<Rightarrow> int option \<Rightarrow> int option \<Rightarrow> db \<Rightarrow> 'r" where
  "read_data crud_get_user_data skip_param limit_param d =
     (let skip = (case skip_param of None \<Rightarrow> 0 | Some s \<Rightarrow> s);
          limit = (case limit_param of None \<Rightarrow> 100 | Some l \<Rightarrow> l)
      in crud_get_user_data d skip limit)"

definition update_data ::
  "(db \<Rightarrow> int \<Rightarrow> user_data_create \<Rightarrow> user_data option \<times> db) \<Rightarrow>
   int \<Rightarrow> user_data_create \<Rightarrow> db \<Rightarrow> (http_exception + user_data) \<times> db" where
  "update_data crud_update_user_data item_id data d =
     (case crud_update_user_data d item_id data of
        (None, d') \<Rightarrow> (Inl (HTTPException 404 ''Item not found''), d')
      | (Some updated, d') \<Rightarrow> (Inr updated, d'))"

definition delete_data ::
  "(db \<Rightarrow> int \<Rightarrow> user_data option \<times> db) \<Rightarrow> int \<Rightarrow> db \<Rightarrow> (http_exception + user_data) \<times> db" where
  "delete_data crud_delete_user_data item_id d =
     (case crud_delete_user_data d item_id of
        (None, d') \<Rightarrow> (Inl (HTTPException 404 ''Item not found''), d')
      | (Some deleted, d') \<Rightarrow> (Inr deleted, d'))"

text \<open>The responses of \<^verbatim>\<open>PUT /data/{item_id}\<close> and \<^verbatim>\<open>DELETE /data/{item_id}\<close>; neither
  decorator sets a status code, so a returned record is sent with 200.\<close>

definition PUT_data_response :: "int \<Rightarrow> user_data_create \<Rightarrow> db \<Rightarrow> response" where
  "PUT_data_response item_id data d =
     send 200 (map_sum id user_data_json (fst (update_data update_user_data item_id data d)))"

definition DELETE_data_response :: "int \<Rightarrow> db \<Rightarrow> response" where
  "DELETE_data_response item_id d =
     send 200 (map_sum id user_data_json (fst (delete_data delete_user_data item_id d)))"

section \<open>The health endpoint (\<^verbatim>\<open>app/main.py\<close>, lines 98 to 114)\<close>

text \<open>
  The parameter is what \<^verbatim>\<open>db.execute(text("SELECT 1"))\<close> does: it returns or it raises.
  The result is what leaves the handler: an exception (\<open>Inl\<close>) or a response.
\<close>

definition health_check :: "py_exception + unit \<Rightarrow> py_exception + response" where
  "health_check probe =
     (case probe of
        Inr _ \<Rightarrow>
          Inr (send 200 (Inr (JObj [(''status'', JStr ''ok''), (''database'', JStr ''reachable'')])))
      | Inl e \<Rightarrow>
          Inr \<lparr>status_code = 500,
               content = JObj [(''status'', JStr ''error''), (''database'', JStr ''unreachable''),
                               (''detail'', JStr (exc_str e))]\<rparr>)"

section \<open>The load driver (\<^verbatim>\<open>tests/loadtest.py\<close>)\<close>

subsection \<open>Configuration (lines 10 to 18)\<close>

datatype op = Create | Read | Update | Delete

definition CONCURRENCY :: nat where
  "CONCURRENCY = 10"

definition REQUESTS_PER_CLIENT :: nat where
  "REQUESTS_PER_CLIENT = 100"

definition OP_WEIGHTS :: "(op \<times> nat) list" where
  "OP_WEIGHTS = [(Create, 2), (Read, 5), (Update, 2), (Delete, 1)]"

definition METRICS_EVERY :: nat where
  "METRICS_EVERY = 10"

fun op_name :: "op \<Rightarrow> string" where
  "op_name Create = ''create''"
| "op_name Read = ''read''"
| "op_name Update = ''update''"
| "op_name Delete = ''delete''"

subsection \<open>What a worker does and what it meets\<close>

text \<open>
  A request of the client. \<^verbatim>\<open>PUT_data i b\<close> and \<^verbatim>\<open>DELETE_data i\<close> go to the path
  \<^verbatim>\<open>/data/{i}\<close>, where \<open>i\<close> is the JSON value the f-string formats. \<^verbatim>\<open>GET_data\<close> is
  \<^verbatim>\<open>client.get("/data")\<close>: the path alone, without query parameters.
\<close>

datatype client_request =
    POST_data json
  | GET_data
  | PUT_data json json
  | DELETE_data json
  | GET_metrics

text \<open>A response as the client sees it: the status and what \<^verbatim>\<open>.json()\<close> returns or raises.\<close>

record client_response =
  cr_status :: nat
  cr_json :: "py_exception + json"

type_synonym reply = "py_exception + client_response"

text \<open>
  The trace of a worker: the requests it sends (a request that fails with an exception
  was sent too), the lines it prints and its pauses. The driver prints the duration.
\<close>

datatype event =
    Issued client_request
  | Printed string
  | Slept
  | Printed_duration rat

text \<open>
  What one iteration meets: the operation \<^verbatim>\<open>random.choices\<close> draws, what the server does
  with the first request of the operation, the number from which \<^verbatim>\<open>random.choice\<close> takes
  its index, what the server does with the \<^verbatim>\<open>PUT\<close> or \<^verbatim>\<open>DELETE\<close>, and with the scrape.
  The replies are arbitrary, so they cover every interleaving with the other workers.
\<close>

record iter_env =
  drawn :: op
  first_reply :: reply
  choice_draw :: nat
  second_reply :: reply
  metrics_reply :: reply

text \<open>An action yields the events it caused and either an exception or a value.\<close>

type_synonym 'a act = "event list \<times> (py_exception + 'a)"

definition ret :: "'a \<Rightarrow> 'a act" where
  "ret x = ([], Inr x)"

definition lift :: "py_exception + 'a \<Rightarrow> 'a act" where
  "lift r = ([], r)"

definition bind :: "'a act \<Rightarrow> ('a \<Rightarrow> 'b act) \<Rightarrow> 'b act" where
  "bind a f =
     (case a of
        (evs, Inl e) \<Rightarrow> (evs, Inl e)
      | (evs, Inr x) \<Rightarrow> (case f x of (evs', r) \<Rightarrow> (evs @ evs', r)))"

definition await_request :: "client_request \<Rightarrow> reply \<Rightarrow> client_response act" where
  "await_request rq rp = ([Issued rq], rp)"

subsection \<open>Python values\<close>

fun truthy :: "json \<Rightarrow> bool" where
  "truthy JNull = False"
| "truthy (JBool b) = b"
| "truthy (JInt n) = (n \<noteq> 0)"
| "truthy (JStr s) = (s \<noteq> [])"
| "truthy (JList xs) = (xs \<noteq> [])"
| "truthy (JObj kvs) = (kvs \<noteq> [])"

text \<open>\<^verbatim>\<open>v[key]\<close> with a string key. A decoded object keeps the last value of a repeated key.\<close>

fun subscript :: "json \<Rightarrow> string \<Rightarrow> py_exception + json" where
  "subscript (JObj kvs) k =
     (case map_of (rev kvs) k of
        None \<Rightarrow> Inl (PyException k)
      | Some v \<Rightarrow> Inr v)"
| "subscript (JList xs) k = Inl (PyException ''list indices must be integers or slices, not str'')"
| "subscript (JStr s) k = Inl (PyException ''string indices must be integers'')"
| "subscript v k = Inl (PyException ''object is not subscriptable'')"

text \<open>
  \<^verbatim>\<open>random.choice(seq)\<close> is \<^verbatim>\<open>seq[randbelow(len(seq))]\<close>, and raises on an empty sequence.
  The index below the length is the draw of the environment, reduced into the range.
\<close>

fun random_choice :: "nat \<Rightarrow> json \<Rightarrow> py_exception + json" where
  "random_choice k (JList xs) =
     (if xs = [] then Inl (PyException ''Cannot choose from an empty sequence'')
      else Inr (xs ! (k mod length xs)))"
| "random_choice k (JStr s) =
     (if s = [] then Inl (PyException ''Cannot choose from an empty sequence'')
      else Inr (JStr [s ! (k mod length s)]))"
| "random_choice k (JObj kvs) =
     (if kvs = [] then Inl (PyException ''Cannot choose from an empty sequence'')
      else Inl (PyException ''KeyError''))"
| "random_choice k v = Inl (PyException ''object has no len()'')"

fun py_add_str :: "json \<Rightarrow> string \<Rightarrow> py_exception + json" where
  "py_add_str (JStr s) t = Inr (JStr (s @ t))"
| "py_add_str v t = Inl (PyException ''unsupported operand type(s) for +'')"

fun str_nat :: "nat \<Rightarrow> string" where
  "str_nat n =
     (if n < 10 then [char_of (48 + n)] else str_nat (n div 10) @ [char_of (48 + n mod 10)])"

declare str_nat.simps [simp del]

subsection \<open>The worker (lines 21 to 75)\<close>

text \<open>Lines 47 and 48, and 59 and 60: fetch the list, then decode it.\<close>

definition fetch_items :: "reply \<Rightarrow> json act" where
  "fetch_items rp = bind (await_request GET_data rp) (\<lambda>r. lift (cr_json r))"

text \<open>The branch of the drawn operation, lines 31 to 63.\<close>

definition crud_step :: "string \<Rightarrow> nat \<Rightarrow> iter_env \<Rightarrow> unit act" where
  "crud_step wname i env =
     (case drawn env of
        Create \<Rightarrow>
          (let payload = JObj [(''name'', JStr (''user_'' @ wname @ ''_'' @ str_nat i)),
                               (''email'', JStr (wname @ ''_'' @ str_nat i @ ''@example.com'')),
                               (''message'', JStr ''load test'')]
           in bind (await_request (POST_data payload) (first_reply env)) (\<lambda>resp.
                if cr_status resp = 201
                then bind (lift (cr_json resp)) (\<lambda>j.
                     bind (lift (subscript j ''id'')) (\<lambda>item_id. ret ()))
                else ret ()))
      | Read \<Rightarrow> bind (await_request GET_data (first_reply env)) (\<lambda>_. ret ())
      | Update \<Rightarrow>
          bind (fetch_items (first_reply env)) (\<lambda>items.
            if truthy items
            then bind (lift (random_choice (choice_draw env) items)) (\<lambda>item.
                 bind (lift (subscript item ''name'')) (\<lambda>nm.
                 bind (lift (py_add_str nm ''_upd'')) (\<lambda>nm_upd.
                 bind (lift (subscript item ''email'')) (\<lambda>em.
                 bind (lift (subscript item ''id'')) (\<lambda>item_id.
                 bind (await_request
                         (PUT_data item_id
                            (JObj [(''name'', nm_upd), (''email'', em),
                                   (''message'', JStr ''updated'')]))
                         (second_reply env)) (\<lambda>_. ret ()))))))
            else ret ())
      | Delete \<Rightarrow>
          bind (fetch_items (first_reply env)) (\<lambda>items.
            if truthy items
            then bind (lift (random_choice (choice_draw env) items)) (\<lambda>item.
                 bind (lift (subscript item ''id'')) (\<lambda>item_id.
                 bind (await_request (DELETE_data item_id) (second_reply env)) (\<lambda>_. ret ())))
            else ret ()))"

text \<open>The body of the \<^verbatim>\<open>try\<close>, lines 31 to 67: the operation, then the scrape on its turn.\<close>

definition try_body :: "string \<Rightarrow> nat \<Rightarrow> iter_env \<Rightarrow> unit act" where
  "try_body wname i env =
     bind (crud_step wname i env) (\<lambda>_.
       if i mod METRICS_EVERY = 0
       then bind (await_request GET_metrics (metrics_reply env)) (\<lambda>_. ret ())
       else ret ())"

text \<open>One pass through the loop body, lines 24 to 73: the \<^verbatim>\<open>try\<close> with its handler, then
  the pause.\<close>

definition iteration :: "string \<Rightarrow> nat \<Rightarrow> iter_env \<Rightarrow> unit act" where
  "iteration wname i env =
     bind (case try_body wname i env of
             (evs, Inl e) \<Rightarrow>
               (evs @ [Printed (''['' @ wname @ ''] error during '' @ op_name (drawn env)
                                @ '': '' @ exc_str e)], Inr ())
           | (evs, Inr u) \<Rightarrow> (evs, Inr ()))
          (\<lambda>_. ([Slept], Inr ()))"

text \<open>The \<^verbatim>\<open>for\<close> loop over the indices: an exception that left an iteration would end it.\<close>

fun worker_loop :: "string \<Rightarrow> (nat \<Rightarrow> iter_env) \<Rightarrow> nat list \<Rightarrow> unit act" where
  "worker_loop wname env [] = ret ()"
| "worker_loop wname env (i # idxs) =
     bind (iteration wname i (env i)) (\<lambda>_. worker_loop wname env idxs)"

definition worker :: "string \<Rightarrow> (nat \<Rightarrow> iter_env) \<Rightarrow> unit act" where
  "worker wname env =
     bind (worker_loop wname env [0..<REQUESTS_PER_CLIENT])
          (\<lambda>_. ([Printed (''['' @ wname @ ''] done'')], Inr ()))"

subsection \<open>The entry point (lines 78 to 83)\<close>

text \<open>
  \<^verbatim>\<open>asyncio.gather\<close> returns when every task has finished and raises the first exception
  a task raised. The result is the trace of every worker, and what \<^verbatim>\<open>main\<close> itself
  prints and returns.
\<close>

fun first_raised :: "'a act list \<Rightarrow> py_exception option" where
  "first_raised [] = None"
| "first_raised ((evs, Inl e) # rs) = Some e"
| "first_raised ((evs, Inr x) # rs) = first_raised rs"

definition main :: "(nat \<Rightarrow> nat \<Rightarrow> iter_env) \<Rightarrow> rat \<Rightarrow> rat \<Rightarrow> unit act list \<times> unit act" where
  "main env t_start t_end =
     (let start = t_start;
          tasks = map (\<lambda>i. worker (''client'' @ str_nat i) (env i)) [0..<CONCURRENCY]
      in case first_raised tasks of
           Some e \<Rightarrow> (tasks, ([], Inl e))
         | None \<Rightarrow>
             (let duration = t_end - start
              in (tasks, ([Printed_duration duration], Inr ()))))"

text \<open>The reply of the service to \<^verbatim>\<open>GET /data\<close> without query parameters, over a store:
  the route of \<^verbatim>\<open>read_data\<close>, whose records are sent as a JSON list with 200.\<close>

definition GET_data_reply :: "db \<Rightarrow> reply" where
  "GET_data_reply d =
     Inr \<lparr>cr_status = 200,
          cr_json = Inr (JList (map user_data_json (read_data get_user_data None None d)))\<rparr>"

text \<open>Counting in a trace.\<close>

definition scrapes :: "event list \<Rightarrow> nat" where
  "scrapes evs = length (filter (\<lambda>ev. ev = Issued GET_metrics) evs)"

definition pauses :: "event list \<Rightarrow> nat" where
  "pauses evs = length (filter (\<lambda>ev. ev = Slept) evs)"

fun is_mutation :: "event \<Rightarrow> bool" where
  "is_mutation (Issued (PUT_data i b)) = True"
| "is_mutation (Issued (DELETE_data i)) = True"
| "is_mutation ev = False"

fun is_crud_request :: "event \<Rightarrow> bool" where
  "is_crud_request (Issued GET_metrics) = False"
| "is_crud_request (Issued rq) = True"
| "is_crud_request ev = False"

section \<open>Concrete inputs\<close>

text \<open>A handler that fails because the store cannot be reached, as \<^verbatim>\<open>create_data\<close> does
  when \<^verbatim>\<open>crud.create_user_data\<close> raises, and a handler that answers 200.\<close>

definition store_down :: "metrics \<Rightarrow> request \<Rightarrow> py_exception + response" where
  "store_down m rq = Inl (PyException ''OperationalError'')"

definition replies_200 :: "metrics \<Rightarrow> request \<Rightarrow> py_exception + response" where
  "replies_200 m rq = Inr \<lparr>status_code = 200, content = JNull\<rparr>"

definition POST_data_request :: request where
  "POST_data_request = \<lparr>req_method = ''POST'', url_path = ''/data''\<rparr>"

definition PUT_42_request :: request where
  "PUT_42_request = \<lparr>req_method = ''PUT'', url_path = ''/data/42''\<rparr>"

text \<open>Stores: one record, two records, and \<open>n\<close> records numbered from 1.\<close>

definition one_record :: db where
  "one_record = [\<lparr>name = ''a'', email = ''a@x.com'', message = ''m'', rec_id = 1\<rparr>]"

definition two_records :: db where
  "two_records =
     [\<lparr>name = ''a'', email = ''a@x.com'', message = ''m'', rec_id = 1\<rparr>,
      \<lparr>name = ''b'', email = ''b@x.com'', message = ''n'', rec_id = 2\<rparr>]"

definition new_fields :: user_data_create where
  "new_fields = \<lparr>name = ''c'', email = ''c@x.com'', message = ''o''\<rparr>"

definition numbered_store :: "nat \<Rightarrow> db" where
  "numbered_store n =
     map (\<lambda>k. \<lparr>name = ''user_'' @ str_nat k, email = str_nat k @ ''@example.com'',
               message = ''load test'', rec_id = int k\<rparr>) [1..<Suc n]"

text \<open>Iterations: a read whose request fails to connect; an update and a delete against
  the service holding two records and none.\<close>

definition ok_reply :: reply where
  "ok_reply = Inr \<lparr>cr_status = 200, cr_json = Inr JNull\<rparr>"

definition failing_read_env :: iter_env where
  "failing_read_env =
     \<lparr>drawn = Read, first_reply = Inl (PyException ''ConnectError''), choice_draw = 0,
      second_reply = ok_reply, metrics_reply = ok_reply\<rparr>"

definition update_env :: iter_env where
  "update_env =
     \<lparr>drawn = Update, first_reply = GET_data_reply two_records, choice_draw = 3,
      second_reply = ok_reply, metrics_reply = ok_reply\<rparr>"

definition delete_env :: iter_env where
  "delete_env =
     \<lparr>drawn = Delete, first_reply = GET_data_reply [], choice_draw = 3,
      second_reply = ok_reply, metrics_reply = ok_reply\<rparr>"

section \<open>The collectors and the middleware: properties\<close>

lemma gauge_restored_when_handler_returns:
  "call_next (m\<lparr>IN_PROGRESS := IN_PROGRESS m + 1\<rparr>) rq = Inr rsp \<Longrightarrow>
   IN_PROGRESS (snd (metrics_middleware call_next t0 t1 rq m)) = IN_PROGRESS m"
  by (simp add: metrics_middleware_def counter_labels_inc_def latency_labels_observe_def Let_def)

lemma gauge_kept_raised_when_handler_raises:
  "call_next (m\<lparr>IN_PROGRESS := IN_PROGRESS m + 1\<rparr>) rq = Inl e \<Longrightarrow>
   metrics_middleware call_next t0 t1 rq m = (Inl e, m\<lparr>IN_PROGRESS := IN_PROGRESS m + 1\<rparr>)"
  by (simp add: metrics_middleware_def Let_def)

text \<open>
  Over a sequence of requests the gauge ends above its start by the number of requests
  whose handler raised, and each counter child has grown by the number of requests that
  were answered under its labels; a request whose handler raised is in no counter.
\<close>

lemma gauge_after_one:
  "IN_PROGRESS (snd (metrics_middleware (\<lambda>_. handler) t0 t1 rq m)) =
     IN_PROGRESS m + (if isl (handler rq) then 1 else 0)"
  by (cases "handler rq")
     (simp_all add: metrics_middleware_def counter_labels_inc_def latency_labels_observe_def Let_def)

lemma counter_after_one:
  "counter_value (snd (metrics_middleware (\<lambda>_. handler) t0 t1 rq m)) l =
     counter_value m l + (if answered_as handler l (rq, t0, t1) then 1 else 0)"
  by (cases "handler rq")
     (auto simp: metrics_middleware_def counter_labels_inc_def latency_labels_observe_def Let_def
        counter_value_def answered_as_def)

lemma gauge_after_sequence:
  "IN_PROGRESS (serve_all handler rqs m) =
     IN_PROGRESS m + int (length (filter (raised handler) rqs))"
proof (induction rqs arbitrary: m)
  case Nil
  show ?case by simp
next
  case (Cons x rqs)
  obtain rq t0 t1 where x: "x = (rq, t0, t1)" by (cases x) auto
  show ?case
    by (simp add: x Cons.IH gauge_after_one raised_def)
qed

lemma counter_after_sequence:
  "counter_value (serve_all handler rqs m) l =
     counter_value m l + length (filter (answered_as handler l) rqs)"
proof (induction rqs arbitrary: m)
  case Nil
  show ?case by simp
next
  case (Cons x rqs)
  obtain rq t0 t1 where x: "x = (rq, t0, t1)" by (cases x) auto
  show ?case
    by (simp add: x Cons.IH counter_after_one)
qed

text \<open>
  Claim C1 (the gauge is decremented exactly once whether the handler returns or raises,
  so it is 0 once all requests have completed). The code does not do this. Evaluated on
  a \<^verbatim>\<open>POST /data\<close> whose handler raises, with fresh collectors: the exception leaves the
  middleware, and the gauge of the only request, now over, stays at 1.
\<close>

theorem gauge_left_raised_when_handler_raises:
  "metrics_middleware store_down 0 1 POST_data_request fresh_metrics =
     (Inl (PyException ''OperationalError''), fresh_metrics\<lparr>IN_PROGRESS := 1\<rparr>)
   \<and> IN_PROGRESS (snd (metrics_middleware store_down 0 1 POST_data_request fresh_metrics)) = 1"
  by (simp add: metrics_middleware_def store_down_def fresh_metrics_def)

text \<open>
  Claim C2 as stated (the labels carry the normalized route template) fails: for
  \<^verbatim>\<open>PUT /data/42\<close> answered with 200 the route template is \<^verbatim>\<open>/data/{item_id}\<close>, the counter
  under that template stays 0, and the increment is under the raw path \<^verbatim>\<open>/data/42\<close>.
\<close>

theorem label_is_raw_path_not_template:
  "route_template PUT_42_request = Some ''/data/{item_id}''
   \<and> counter_value (snd (metrics_middleware replies_200 0 1 PUT_42_request fresh_metrics))
        (''PUT'', ''/data/{item_id}'', 200) = 0
   \<and> counter_value (snd (metrics_middleware replies_200 0 1 PUT_42_request fresh_metrics))
        (''PUT'', ''/data/42'', 200) = 1"
  by (simp add: route_template_def routes_def template_matches_def segment_matches_def
        PUT_42_request_def metrics_middleware_def replies_200_def fresh_metrics_def
        counter_value_def counter_labels_inc_def latency_labels_observe_def Let_def)

text \<open>
  Claim C2, amended: for every request whose handler returns a response, the counter
  increment and the histogram observation are both labelled with the request method, the
  raw request path (\<^verbatim>\<open>request.url.path\<close>) and the status code of the response; the
  observed value is the measured latency, and no other label combination changes.
\<close>

theorem labels_are_method_path_status:
  assumes "call_next (m\<lparr>IN_PROGRESS := IN_PROGRESS m + 1\<rparr>) rq = Inr rsp"
  shows "metrics_middleware call_next t0 t1 rq m =
     (Inr rsp,
      m\<lparr>REQUEST_COUNT :=
           (REQUEST_COUNT m)((req_method rq, url_path rq, status_code rsp) \<mapsto>
              counter_value m (req_method rq, url_path rq, status_code rsp) + 1),
        REQUEST_LATENCY_children :=
           (REQUEST_LATENCY_children m)((req_method rq, url_path rq, status_code rsp) \<mapsto>
              observe REQUEST_LATENCY (t1 - t0)
                (case REQUEST_LATENCY_children m (req_method rq, url_path rq, status_code rsp) of
                   None \<Rightarrow> new_child REQUEST_LATENCY | Some c \<Rightarrow> c))\<rparr>)"
  using assms
  by (simp add: metrics_middleware_def counter_labels_inc_def latency_labels_observe_def
        counter_value_def Let_def)

text \<open>
  Witness for the amended claim C2: \<^verbatim>\<open>PUT /data/42\<close>, answered with 200 after a quarter
  of a second, on fresh collectors.
\<close>

theorem labels_are_method_path_status_witness:
  "replies_200 (fresh_metrics\<lparr>IN_PROGRESS := IN_PROGRESS fresh_metrics + 1\<rparr>) PUT_42_request
     = Inr \<lparr>status_code = 200, content = JNull\<rparr>
   \<and> REQUEST_COUNT (snd (metrics_middleware replies_200 0 (1 / 4) PUT_42_request fresh_metrics))
       = [(''PUT'', ''/data/42'', 200) \<mapsto> 1]
   \<and> REQUEST_LATENCY_children
        (snd (metrics_middleware replies_200 0 (1 / 4) PUT_42_request fresh_metrics))
       = [(''PUT'', ''/data/42'', 200) \<mapsto>
            \<lparr>bucket_counts = [0, 1, 0, 0, 0, 0, 0], hist_sum = 1 / 4\<rparr>]"
proof -
  have h: "replies_200 (fresh_metrics\<lparr>IN_PROGRESS := IN_PROGRESS fresh_metrics + 1\<rparr>) PUT_42_request
     = Inr \<lparr>status_code = 200, content = JNull\<rparr>"
    by (simp add: replies_200_def)
  show ?thesis
    using h labels_are_method_path_status
            [where call_next = replies_200 and m = fresh_metrics and rq = PUT_42_request
               and rsp = "\<lparr>status_code = 200, content = JNull\<rparr>" and ?t0.0 = 0 and ?t1.0 = "1 / 4"]
    by (simp add: PUT_42_request_def fresh_metrics_def counter_value_def observe_def
          new_child_def REQUEST_LATENCY_def Histogram_def)
qed

text \<open>
  Claim C3 (one counter increment and one histogram observation per request, also when
  the handler throws). The code does not do this. Evaluated on the same failing
  \<^verbatim>\<open>POST /data\<close>: after the request no counter child and no histogram child exists, and
  the count under the status 500 that the client receives is 0.
\<close>

theorem nothing_counted_when_handler_raises:
  "REQUEST_COUNT (snd (metrics_middleware store_down 0 1 POST_data_request fresh_metrics)) = Map.empty
   \<and> REQUEST_LATENCY_children
        (snd (metrics_middleware store_down 0 1 POST_data_request fresh_metrics)) = Map.empty
   \<and> counter_value (snd (metrics_middleware store_down 0 1 POST_data_request fresh_metrics))
        (''POST'', ''/data'', 500) = 0
   \<and> observation_count (snd (metrics_middleware store_down 0 1 POST_data_request fresh_metrics))
        (''POST'', ''/data'', 500) = 0"
  by (simp add: metrics_middleware_def store_down_def fresh_metrics_def counter_value_def
        observation_count_def)

text \<open>
  Claim C7: the latency histogram is created with the bucket boundaries 0.1, 0.3, 0.5,
  1, 3 and 5 seconds, closed by the library with \<^verbatim>\<open>+Inf\<close>, and with the three labels for
  method, route and status, which the code names \<^verbatim>\<open>method\<close>, \<^verbatim>\<open>endpoint\<close>, \<^verbatim>\<open>http_status\<close>.
\<close>

theorem REQUEST_LATENCY_buckets_and_labels:
  "upper_bounds REQUEST_LATENCY = [Le (1 / 10), Le (3 / 10), Le (1 / 2), Le 1, Le 3, Le 5, PInf]
   \<and> labelnames REQUEST_LATENCY = [''method'', ''endpoint'', ''http_status'']"
  by (simp add: REQUEST_LATENCY_def Histogram_def)

section \<open>The endpoints: properties\<close>

text \<open>
  Claim C4: \<^verbatim>\<open>GET /health\<close> answers 200 with status ok and database reachable when the
  liveness query succeeds, answers 500 with status error, database unreachable and the
  text of the error as detail when the query raises, and no exception leaves the handler.
\<close>

theorem health_check_reports:
  "health_check (Inr ()) =
     Inr \<lparr>status_code = 200,
          content = JObj [(''status'', JStr ''ok''), (''database'', JStr ''reachable'')]\<rparr>
   \<and> health_check (Inl e) =
     Inr \<lparr>status_code = 500,
          content = JObj [(''status'', JStr ''error''), (''database'', JStr ''unreachable''),
                          (''detail'', JStr (exc_str e))]\<rparr>
   \<and> (\<exists>rsp. health_check probe = Inr rsp)"
  by (cases probe) (simp_all add: health_check_def send_def)

text \<open>
  Claim C10: \<^verbatim>\<open>GET /data\<close> hands the integers \<open>skip\<close> and \<open>limit\<close> it receives, negative
  ones included, to \<^verbatim>\<open>crud.get_user_data\<close> as they are, without a validation error and
  without clamping; an absent parameter is 0 for \<open>skip\<close> and 100 for \<open>limit\<close>. The
  function of the \<^verbatim>\<open>crud\<close> module is arbitrary here.
\<close>

theorem read_data_passes_skip_limit:
  "read_data crud (Some skip) (Some limit) d = crud d skip limit
   \<and> read_data crud None None d = crud d 0 100
   \<and> read_data crud (Some skip) None d = crud d skip 100
   \<and> read_data crud None (Some limit) d = crud d 0 limit"
  by (simp add: read_data_def)

lemma update_absent:
  "item_id \<notin> rec_id ` set d \<Longrightarrow> update_user_data d item_id data = (None, d)"
  by (induction d) (auto simp: Let_def)

lemma delete_absent:
  "item_id \<notin> rec_id ` set d \<Longrightarrow> delete_user_data d item_id = (None, d)"
  by (induction d) auto

lemma update_present:
  "item_id \<in> rec_id ` set d \<Longrightarrow>
   fst (update_user_data d item_id data) =
     Some \<lparr>name = name data, email = email data, message = message data, rec_id = item_id\<rparr>"
  by (induction d) (auto simp: Let_def split: prod.splits)

lemma delete_present:
  "item_id \<in> rec_id ` set d \<Longrightarrow>
   fst (delete_user_data d item_id) = find (\<lambda>u. rec_id u = item_id) d"
  by (induction d) (auto split: prod.splits)

lemma find_present:
  "item_id \<in> rec_id ` set d \<Longrightarrow>
   \<exists>u. find (\<lambda>u. rec_id u = item_id) d = Some u \<and> rec_id u = item_id \<and> u \<in> set d"
  by (induction d) auto

text \<open>
  Claim C5: for an id that no record has, \<^verbatim>\<open>PUT /data/{id}\<close> and \<^verbatim>\<open>DELETE /data/{id}\<close>
  answer 404 with the detail "Item not found" (not a server error); for an id that a
  record has they answer 200, with the record carrying the new fields and with the
  record that was deleted.
\<close>

theorem update_delete_by_id:
  "(item_id \<notin> rec_id ` set d \<longrightarrow>
      PUT_data_response item_id data d =
        \<lparr>status_code = 404, content = JObj [(''detail'', JStr ''Item not found'')]\<rparr>
      \<and> DELETE_data_response item_id d =
        \<lparr>status_code = 404, content = JObj [(''detail'', JStr ''Item not found'')]\<rparr>)
   \<and> (item_id \<in> rec_id ` set d \<longrightarrow>
      PUT_data_response item_id data d =
        \<lparr>status_code = 200,
         content = user_data_json \<lparr>name = name data, email = email data,
                                   message = message data, rec_id = item_id\<rparr>\<rparr>
      \<and> (\<exists>u. find (\<lambda>u. rec_id u = item_id) d = Some u \<and> rec_id u = item_id \<and> u \<in> set d \<and>
           DELETE_data_response item_id d = \<lparr>status_code = 200, content = user_data_json u\<rparr>))"
proof (intro conjI impI)
  assume a: "item_id \<notin> rec_id ` set d"
  show "PUT_data_response item_id data d =
        \<lparr>status_code = 404, content = JObj [(''detail'', JStr ''Item not found'')]\<rparr>"
    by (simp add: PUT_data_response_def update_data_def update_absent [OF a] send_def)
  show "DELETE_data_response item_id d =
        \<lparr>status_code = 404, content = JObj [(''detail'', JStr ''Item not found'')]\<rparr>"
    by (simp add: DELETE_data_response_def delete_data_def delete_absent [OF a] send_def)
next
  assume p: "item_id \<in> rec_id ` set d"
  obtain r d' where u: "update_user_data d item_id data = (r, d')"
    by (cases "update_user_data d item_id data")
  with update_present [OF p, of data]
  have "r = Some \<lparr>name = name data, email = email data, message = message data, rec_id = item_id\<rparr>"
    by simp
  with u show "PUT_data_response item_id data d =
        \<lparr>status_code = 200,
         content = user_data_json \<lparr>name = name data, email = email data,
                                   message = message data, rec_id = item_id\<rparr>\<rparr>"
    by (simp add: PUT_data_response_def update_data_def send_def)
  from find_present [OF p] obtain u where f: "find (\<lambda>u. rec_id u = item_id) d = Some u"
    and i: "rec_id u = item_id" and m: "u \<in> set d" by blast
  obtain r' d'' where dl: "delete_user_data d item_id = (r', d'')"
    by (cases "delete_user_data d item_id")
  with delete_present [OF p] f have "r' = Some u" by simp
  with dl have "DELETE_data_response item_id d = \<lparr>status_code = 200, content = user_data_json u\<rparr>"
    by (simp add: DELETE_data_response_def delete_data_def send_def)
  with f i m show "\<exists>u. find (\<lambda>u. rec_id u = item_id) d = Some u \<and> rec_id u = item_id \<and> u \<in> set d \<and>
           DELETE_data_response item_id d = \<lparr>status_code = 200, content = user_data_json u\<rparr>"
    by blast
qed

text \<open>
  Witness for claim C5: on the store holding the record 1 alone, the id 7 is absent and
  the id 1 is present.
\<close>

theorem update_delete_by_id_witness:
  "7 \<notin> rec_id ` set one_record
   \<and> PUT_data_response 7 new_fields one_record =
       \<lparr>status_code = 404, content = JObj [(''detail'', JStr ''Item not found'')]\<rparr>
   \<and> DELETE_data_response 7 one_record =
       \<lparr>status_code = 404, content = JObj [(''detail'', JStr ''Item not found'')]\<rparr>
   \<and> 1 \<in> rec_id ` set one_record
   \<and> PUT_data_response 1 new_fields one_record =
       \<lparr>status_code = 200,
        content = JObj [(''name'', JStr ''c''), (''email'', JStr ''c@x.com''),
                        (''message'', JStr ''o''), (''id'', JInt 1)]\<rparr>
   \<and> DELETE_data_response 1 one_record =
       \<lparr>status_code = 200,
        content = JObj [(''name'', JStr ''a''), (''email'', JStr ''a@x.com''),
                        (''message'', JStr ''m''), (''id'', JInt 1)]\<rparr>"
  using update_delete_by_id [of 7 one_record new_fields]
        update_delete_by_id [of 1 one_record new_fields]
  by (simp add: one_record_def new_fields_def user_data_json_def)

section \<open>The load driver: properties\<close>

subsection \<open>Actions\<close>

lemma bind_raised: "snd a = Inl e \<Longrightarrow> bind a f = (fst a, Inl e)"
  by (cases a) (simp add: bind_def)

lemma bind_returned: "snd a = Inr x \<Longrightarrow> bind a f = (fst a @ fst (f x), snd (f x))"
  by (cases a) (simp add: bind_def split: prod.splits)

lemma bind_events_prefix: "take (length (fst a)) (fst (bind a f)) = fst a"
  by (cases a; cases "snd a") (auto simp: bind_def split: prod.splits)

lemma events_bind:
  assumes "list_all P (fst a)" and "\<And>x. list_all P (fst (f x))"
  shows "list_all P (fst (bind a f))"
proof (cases "snd a")
  case (Inl e)
  with assms(1) show ?thesis by (simp add: bind_raised)
next
  case (Inr x)
  with assms show ?thesis by (simp add: bind_returned)
qed

lemma events_lift: "list_all P (fst (lift r))"
  by (simp add: lift_def)

lemma events_ret: "list_all P (fst (ret x))"
  by (simp add: ret_def)

lemma events_await: "P (Issued rq) \<Longrightarrow> list_all P (fst (await_request rq rp))"
  by (simp add: await_request_def)

lemma events_if:
  "list_all P (fst a) \<Longrightarrow> list_all P (fst b) \<Longrightarrow> list_all P (fst (if c then a else b))"
  by simp

lemma events_await_ret: "fst (bind (await_request rq rp) (\<lambda>_. ret ())) = [Issued rq]"
  by (cases rp) (simp_all add: bind_def await_request_def ret_def)

lemma scrapes_append: "scrapes (xs @ ys) = scrapes xs + scrapes ys"
  by (simp add: scrapes_def)

lemma pauses_append: "pauses (xs @ ys) = pauses xs + pauses ys"
  by (simp add: pauses_def)

lemma scrapes_crud: "list_all is_crud_request evs \<Longrightarrow> scrapes evs = 0"
  by (induction evs) (auto simp: scrapes_def)

lemma pauses_crud: "list_all is_crud_request evs \<Longrightarrow> pauses evs = 0"
  by (induction evs) (auto simp: pauses_def)

subsection \<open>One iteration\<close>

text \<open>The branch of the operation sends requests to \<^verbatim>\<open>/data\<close> only, and never pauses.\<close>

lemma crud_step_events: "list_all is_crud_request (fst (crud_step wname i env))"
proof (cases "drawn env")
  case Create
  then show ?thesis
    unfolding crud_step_def Let_def
    by (simp, intro events_bind events_if events_lift events_ret events_await) simp
next
  case Read
  then show ?thesis
    unfolding crud_step_def
    by (simp, intro events_bind events_if events_lift events_ret events_await) simp
next
  case Update
  then show ?thesis
    unfolding crud_step_def fetch_items_def
    by (simp, intro events_bind events_if events_lift events_ret events_await) simp_all
next
  case Delete
  then show ?thesis
    unfolding crud_step_def fetch_items_def
    by (simp, intro events_bind events_if events_lift events_ret events_await) simp_all
qed

lemma try_body_events:
  "fst (try_body wname i env) =
     fst (crud_step wname i env) @
     (if \<not> isl (snd (crud_step wname i env)) \<and> i mod METRICS_EVERY = 0
      then [Issued GET_metrics] else [])"
proof (cases "snd (crud_step wname i env)")
  case (Inl e)
  then show ?thesis by (simp add: try_body_def bind_raised)
next
  case (Inr u)
  then show ?thesis
    by (simp add: try_body_def bind_returned events_await_ret) (simp add: ret_def)
qed

lemma iteration_events:
  "fst (iteration wname i env) =
     fst (try_body wname i env) @
     (case snd (try_body wname i env) of
        Inl e \<Rightarrow> [Printed (''['' @ wname @ ''] error during '' @ op_name (drawn env)
                            @ '': '' @ exc_str e)]
      | Inr u \<Rightarrow> []) @ [Slept]"
  by (cases "try_body wname i env") (simp add: iteration_def bind_def split: sum.splits)

lemma iteration_returns: "snd (iteration wname i env) = Inr ()"
  by (cases "try_body wname i env") (simp add: iteration_def bind_def split: sum.splits)

lemma scrapes_iteration:
  "scrapes (fst (iteration wname i env)) =
     (if i mod METRICS_EVERY = 0 \<and> \<not> isl (snd (crud_step wname i env)) then 1 else 0)"
  by (simp add: iteration_events try_body_events scrapes_append scrapes_crud [OF crud_step_events]
        split: sum.splits)
     (simp_all add: scrapes_def)

lemma pauses_iteration: "pauses (fst (iteration wname i env)) = 1"
  by (simp add: iteration_events try_body_events pauses_append pauses_crud [OF crud_step_events]
        split: sum.splits)
     (simp_all add: pauses_def)

subsection \<open>The loop and the driver\<close>

lemma worker_loop_completes:
  "snd (worker_loop wname env idxs) = Inr ()
   \<and> pauses (fst (worker_loop wname env idxs)) = length idxs"
proof (induction idxs)
  case Nil
  show ?case by (simp add: ret_def pauses_def)
next
  case (Cons i idxs)
  then show ?case
    by (simp add: bind_returned [OF iteration_returns] pauses_append pauses_iteration)
qed

lemma worker_completes:
  "snd (worker wname env) = Inr ()"
  "pauses (fst (worker wname env)) = REQUESTS_PER_CLIENT"
  "last (fst (worker wname env)) = Printed (''['' @ wname @ ''] done'')"
  using worker_loop_completes [of wname env "[0..<REQUESTS_PER_CLIENT]"]
  by (simp_all add: worker_def bind_returned pauses_append) (simp add: pauses_def)

lemma worker_loop_trace:
  "fst (worker_loop wname env idxs) =
     concat (map (\<lambda>i. fst (iteration wname i (env i))) idxs)"
proof (induction idxs)
  case Nil
  show ?case by (simp add: ret_def)
next
  case (Cons i idxs)
  then show ?case
    by (simp add: bind_returned [OF iteration_returns])
qed

lemma worker_trace:
  "fst (worker wname env) =
     concat (map (\<lambda>i. fst (iteration wname i (env i))) [0..<REQUESTS_PER_CLIENT])
     @ [Printed (''['' @ wname @ ''] done'')]"
  using worker_loop_completes [of wname env "[0..<REQUESTS_PER_CLIENT]"]
  by (simp add: worker_def bind_returned worker_loop_trace)

lemma first_raised_none:
  "(\<And>a. a \<in> set tasks \<Longrightarrow> snd a = Inr ()) \<Longrightarrow> first_raised tasks = None"
proof (induction tasks)
  case Nil
  show ?case by simp
next
  case (Cons a tasks)
  then have "snd a = Inr ()" by simp
  then obtain evs where "a = (evs, Inr ())" by (cases a) simp
  with Cons show ?case by simp
qed

lemma main_completes:
  "main env t0 t1 =
     (map (\<lambda>i. worker (''client'' @ str_nat i) (env i)) [0..<CONCURRENCY],
      ([Printed_duration (t1 - t0)], Inr ()))"
proof -
  have "first_raised (map (\<lambda>i. worker (''client'' @ str_nat i) (env i)) [0..<CONCURRENCY]) = None"
    by (rule first_raised_none) (auto simp: worker_completes)
  then show ?thesis by (simp add: main_def)
qed

text \<open>
  Claim C6: in every iteration of every worker an exception raised by the operation or
  by its scrape is caught and printed inside the loop, and nothing leaves the iteration;
  so the trace of every worker is the traces of its iterations 0 up to
  \<^verbatim>\<open>REQUESTS_PER_CLIENT\<close>, each run in full and in order, followed by its line "done",
  and the driver, having awaited all \<^verbatim>\<open>CONCURRENCY\<close> workers, each with that trace,
  prints the elapsed time between its two readings of the clock.
\<close>

theorem workers_run_to_completion:
  "snd (iteration wname i ienv) = Inr ()
   \<and> fst (iteration wname i ienv) =
       fst (try_body wname i ienv) @
       (case snd (try_body wname i ienv) of
          Inl e \<Rightarrow> [Printed (''['' @ wname @ ''] error during '' @ op_name (drawn ienv)
                              @ '': '' @ exc_str e)]
        | Inr u \<Rightarrow> []) @ [Slept]
   \<and> worker wname wenv =
       (concat (map (\<lambda>i. fst (iteration wname i (wenv i))) [0..<REQUESTS_PER_CLIENT])
          @ [Printed (''['' @ wname @ ''] done'')],
        Inr ())
   \<and> snd (worker wname wenv) = Inr ()
   \<and> pauses (fst (worker wname wenv)) = REQUESTS_PER_CLIENT
   \<and> last (fst (worker wname wenv)) = Printed (''['' @ wname @ ''] done'')
   \<and> main env t0 t1 =
       (map (\<lambda>w. worker (''client'' @ str_nat w) (env w)) [0..<CONCURRENCY],
        ([Printed_duration (t1 - t0)], Inr ()))
   \<and> map fst (fst (main env t0 t1)) =
       map (\<lambda>w. concat (map (\<lambda>i. fst (iteration (''client'' @ str_nat w) i (env w i)))
                            [0..<REQUESTS_PER_CLIENT])
                 @ [Printed (''['' @ ''client'' @ str_nat w @ ''] done'')])
           [0..<CONCURRENCY]
   \<and> length (fst (main env t0 t1)) = CONCURRENCY"
proof -
  have a1: "snd (iteration wname i ienv) = Inr ()"
    by (rule iteration_returns)
  have a2: "fst (iteration wname i ienv) =
       fst (try_body wname i ienv) @
       (case snd (try_body wname i ienv) of
          Inl e \<Rightarrow> [Printed (''['' @ wname @ ''] error during '' @ op_name (drawn ienv)
                              @ '': '' @ exc_str e)]
        | Inr u \<Rightarrow> []) @ [Slept]"
    by (rule iteration_events)
  have a3: "worker wname wenv =
       (concat (map (\<lambda>i. fst (iteration wname i (wenv i))) [0..<REQUESTS_PER_CLIENT])
          @ [Printed (''['' @ wname @ ''] done'')],
        Inr ())"
    by (simp add: prod_eq_iff worker_trace worker_completes(1))
  have a4: "snd (worker wname wenv) = Inr ()"
    by (rule worker_completes(1))
  have a5: "pauses (fst (worker wname wenv)) = REQUESTS_PER_CLIENT"
    by (rule worker_completes(2))
  have a6: "last (fst (worker wname wenv)) = Printed (''['' @ wname @ ''] done'')"
    by (rule worker_completes(3))
  have a7: "main env t0 t1 =
       (map (\<lambda>w. worker (''client'' @ str_nat w) (env w)) [0..<CONCURRENCY],
        ([Printed_duration (t1 - t0)], Inr ()))"
    by (rule main_completes)
  have a8: "map fst (fst (main env t0 t1)) =
       map (\<lambda>w. concat (map (\<lambda>i. fst (iteration (''client'' @ str_nat w) i (env w i)))
                            [0..<REQUESTS_PER_CLIENT])
                 @ [Printed (''['' @ ''client'' @ str_nat w @ ''] done'')])
           [0..<CONCURRENCY]"
    by (simp add: main_completes worker_trace)
  have a9: "length (fst (main env t0 t1)) = CONCURRENCY"
    by (simp add: main_completes)
  show ?thesis
    by (intro conjI) (rule a1, rule a2, rule a3, rule a4, rule a5, rule a6, rule a7, rule a8, rule a9)
qed

text \<open>
  Claim C8 as stated (exactly one scrape on every iteration whose turn it is) fails: in
  the iteration 0, whose index is a multiple of \<^verbatim>\<open>METRICS_EVERY\<close>, a read that fails to
  connect is caught after the request to \<^verbatim>\<open>/data\<close>, and no scrape is sent.
\<close>

theorem no_scrape_when_operation_raises:
  "0 mod METRICS_EVERY = 0
   \<and> fst (iteration ''client0'' 0 failing_read_env) =
       [Issued GET_data, Printed ''[client0] error during read: ConnectError'', Slept]
   \<and> scrapes (fst (iteration ''client0'' 0 failing_read_env)) = 0"
  by (simp add: iteration_def try_body_def crud_step_def failing_read_env_def bind_def
        await_request_def ret_def scrapes_def METRICS_EVERY_def)

text \<open>
  Claim C8, amended: with \<^verbatim>\<open>METRICS_EVERY\<close> = 10, a worker sends exactly one scrape in
  each iteration whose index, counted from 0, is a multiple of \<^verbatim>\<open>METRICS_EVERY\<close> and whose
  operation raised no exception, and sends none in any other iteration.
\<close>

theorem scrape_on_turn_after_operation:
  "METRICS_EVERY = 10
   \<and> scrapes (fst (iteration wname i env)) =
       (if i mod METRICS_EVERY = 0 \<and> \<not> isl (snd (crud_step wname i env)) then 1 else 0)"
  using scrapes_iteration [of wname i env] by (simp add: METRICS_EVERY_def)

subsection \<open>Update and delete\<close>

lemma fetch_items_events: "fst (fetch_items rp) = [Issued GET_data]"
  by (cases rp) (simp_all add: fetch_items_def bind_def await_request_def lift_def)

lemma fetch_items_result: "snd (fetch_items (Inr r)) = cr_json r"
  by (simp add: fetch_items_def bind_def await_request_def lift_def)

lemma crud_step_fetch_first:
  assumes "drawn env = Update \<or> drawn env = Delete"
  shows "take 1 (fst (crud_step wname i env)) = [Issued GET_data]"
proof -
  have "\<And>f. take 1 (fst (bind (fetch_items (first_reply env)) f)) = [Issued GET_data]"
    using bind_events_prefix [of "fetch_items (first_reply env)"]
    by (simp add: fetch_items_events)
  with assms show ?thesis by (auto simp: crud_step_def)
qed

lemma subscript_user_data:
  "subscript (user_data_json u) ''name'' = Inr (JStr (name u))"
  "subscript (user_data_json u) ''email'' = Inr (JStr (email u))"
  "subscript (user_data_json u) ''id'' = Inr (JInt (rec_id u))"
  by (simp_all add: user_data_json_def)

lemma fetch_items_records:
  assumes "first_reply env = Inr r" and "cr_json r = Inr j"
  shows "fetch_items (first_reply env) = ([Issued GET_data], Inr j)"
  using assms fetch_items_events [of "Inr r"] fetch_items_result [of r]
  by (simp add: prod_eq_iff)

lemma crud_step_update_records:
  assumes "drawn env = Update" and "first_reply env = Inr r"
    and "cr_json r = Inr (JList (map user_data_json us))" and "us \<noteq> []"
  shows "fst (crud_step wname i env) =
     [Issued GET_data,
      Issued (PUT_data (JInt (rec_id (us ! (choice_draw env mod length us))))
                (JObj [(''name'', JStr (name (us ! (choice_draw env mod length us)) @ ''_upd'')),
                       (''email'', JStr (email (us ! (choice_draw env mod length us)))),
                       (''message'', JStr ''updated'')]))]"
proof -
  have k: "choice_draw env mod length us < length us" using assms(4) by simp
  show ?thesis
    using assms(1,4) k
    by (simp add: crud_step_def fetch_items_records [OF assms(2,3)] bind_def lift_def
          subscript_user_data await_request_def ret_def split: sum.splits)
qed

lemma crud_step_delete_records:
  assumes "drawn env = Delete" and "first_reply env = Inr r"
    and "cr_json r = Inr (JList (map user_data_json us))" and "us \<noteq> []"
  shows "fst (crud_step wname i env) =
     [Issued GET_data, Issued (DELETE_data (JInt (rec_id (us ! (choice_draw env mod length us)))))]"
proof -
  have k: "choice_draw env mod length us < length us" using assms(4) by simp
  show ?thesis
    using assms(1,4) k
    by (simp add: crud_step_def fetch_items_records [OF assms(2,3)] bind_def lift_def
          subscript_user_data await_request_def ret_def split: sum.splits)
qed

lemma crud_step_empty_list:
  assumes "drawn env = Update \<or> drawn env = Delete" and "first_reply env = Inr r"
    and "cr_json r = Inr (JList [])"
  shows "crud_step wname i env = ([Issued GET_data], Inr ())"
  using assms(1)
  by (auto simp: crud_step_def fetch_items_records [OF assms(2,3)] bind_def ret_def)

lemma GET_data_reply_items:
  "snd (fetch_items (GET_data_reply d)) = Inr (JList (map user_data_json (take 100 d)))"
  by (simp add: GET_data_reply_def fetch_items_result read_data_def get_user_data_def)

lemma length_numbered_store: "length (numbered_store n) = n"
  by (simp add: numbered_store_def)

text \<open>
  Claim C9 as stated (the worker fetches the full current list of records) fails: the
  worker sends \<^verbatim>\<open>GET /data\<close> without query parameters, the service answers with its
  default \<open>limit\<close> of 100, and over a store of 101 records the list the worker picks
  from has 100 elements and is not the list of all records.
\<close>

theorem fetched_list_is_first_hundred:
  "length (numbered_store 101) = 101
   \<and> snd (fetch_items (GET_data_reply (numbered_store 101))) =
       Inr (JList (map user_data_json (take 100 (numbered_store 101))))
   \<and> length (map user_data_json (take 100 (numbered_store 101))) = 100
   \<and> snd (fetch_items (GET_data_reply (numbered_store 101))) \<noteq>
       Inr (JList (map user_data_json (numbered_store 101)))"
proof -
  have "length (map user_data_json (take 100 (numbered_store 101))) \<noteq>
        length (map user_data_json (numbered_store 101))"
    by (simp add: length_numbered_store)
  then have "map user_data_json (take 100 (numbered_store 101)) \<noteq>
             map user_data_json (numbered_store 101)"
    by metis
  then show ?thesis
    by (simp add: GET_data_reply_items length_numbered_store)
qed

text \<open>
  Claim C9, amended: in every iteration whose drawn operation is update or delete, the
  first request of the worker is \<^verbatim>\<open>GET /data\<close> without query parameters (which the
  service answers with at most its first 100 records). When the answer is a list of
  records, the worker takes the element at the index that \<^verbatim>\<open>random.choice\<close> draws below
  the length of that list and sends one \<^verbatim>\<open>PUT\<close> or \<^verbatim>\<open>DELETE\<close> to the id of that element;
  when the list is empty it sends no \<^verbatim>\<open>PUT\<close> and no \<^verbatim>\<open>DELETE\<close>, and the operation ends.
\<close>

theorem update_delete_target_from_fetched_list:
  assumes "drawn env = Update \<or> drawn env = Delete"
  shows "take 1 (fst (crud_step wname i env)) = [Issued GET_data]
    \<and> (first_reply env = Inr r \<and> cr_json r = Inr (JList (map user_data_json us)) \<longrightarrow>
         (us = [] \<longrightarrow> crud_step wname i env = ([Issued GET_data], Inr ()))
       \<and> (us \<noteq> [] \<longrightarrow>
            fst (crud_step wname i env) =
              [Issued GET_data,
               if drawn env = Update
               then Issued (PUT_data (JInt (rec_id (us ! (choice_draw env mod length us))))
                      (JObj [(''name'',
                              JStr (name (us ! (choice_draw env mod length us)) @ ''_upd'')),
                             (''email'', JStr (email (us ! (choice_draw env mod length us)))),
                             (''message'', JStr ''updated'')]))
               else Issued (DELETE_data
                      (JInt (rec_id (us ! (choice_draw env mod length us)))))]))"
proof (intro conjI impI)
  show "take 1 (fst (crud_step wname i env)) = [Issued GET_data]"
    by (rule crud_step_fetch_first [OF assms])
next
  assume h: "first_reply env = Inr r \<and> cr_json r = Inr (JList (map user_data_json us))"
    and e: "us = []"
  from h e have "cr_json r = Inr (JList [])" by simp
  with assms h show "crud_step wname i env = ([Issued GET_data], Inr ())"
    by (simp add: crud_step_empty_list)
next
  assume h: "first_reply env = Inr r \<and> cr_json r = Inr (JList (map user_data_json us))"
    and n: "us \<noteq> []"
  from assms show "fst (crud_step wname i env) =
      [Issued GET_data,
       if drawn env = Update
       then Issued (PUT_data (JInt (rec_id (us ! (choice_draw env mod length us))))
              (JObj [(''name'',
                      JStr (name (us ! (choice_draw env mod length us)) @ ''_upd'')),
                     (''email'', JStr (email (us ! (choice_draw env mod length us)))),
                     (''message'', JStr ''updated'')]))
       else Issued (DELETE_data
              (JInt (rec_id (us ! (choice_draw env mod length us)))))]"
  proof
    assume u: "drawn env = Update"
    with h n show ?thesis by (simp add: crud_step_update_records)
  next
    assume d: "drawn env = Delete"
    with h n show ?thesis by (simp add: crud_step_delete_records)
  qed
qed

text \<open>
  Witness for the amended claim C9: an update against the service holding two records,
  where the draw 3 selects the second one, and a delete against the empty service.
\<close>

theorem update_delete_target_from_fetched_list_witness:
  "(drawn update_env = Update \<or> drawn update_env = Delete)
   \<and> first_reply update_env =
       Inr \<lparr>cr_status = 200, cr_json = Inr (JList (map user_data_json two_records))\<rparr>
   \<and> two_records \<noteq> []
   \<and> take 1 (fst (crud_step ''client0'' 5 update_env)) = [Issued GET_data]
   \<and> fst (crud_step ''client0'' 5 update_env) =
       [Issued GET_data,
        Issued (PUT_data (JInt 2)
                  (JObj [(''name'', JStr ''b_upd''), (''email'', JStr ''b@x.com''),
                         (''message'', JStr ''updated'')]))]
   \<and> (drawn delete_env = Update \<or> drawn delete_env = Delete)
   \<and> first_reply delete_env = Inr \<lparr>cr_status = 200, cr_json = Inr (JList (map user_data_json []))\<rparr>
   \<and> crud_step ''client0'' 5 delete_env = ([Issued GET_data], Inr ())"
proof -
  have u: "drawn update_env = Update \<or> drawn update_env = Delete"
    by (simp add: update_env_def)
  have d: "drawn delete_env = Update \<or> drawn delete_env = Delete"
    by (simp add: delete_env_def)
  have fu: "first_reply update_env =
       Inr \<lparr>cr_status = 200, cr_json = Inr (JList (map user_data_json two_records))\<rparr>"
    by (simp add: update_env_def GET_data_reply_def read_data_def get_user_data_def
          two_records_def)
  have fd: "first_reply delete_env =
       Inr \<lparr>cr_status = 200, cr_json = Inr (JList (map user_data_json []))\<rparr>"
    by (simp add: delete_env_def GET_data_reply_def read_data_def get_user_data_def)
  have c: "choice_draw update_env = 3"
    by (simp add: update_env_def)
  have n: "two_records \<noteq> []" "length two_records = 2" "drawn update_env = Update"
    "two_records ! Suc 0 = \<lparr>name = ''b'', email = ''b@x.com'', message = ''n'', rec_id = 2\<rparr>"
    by (simp_all add: two_records_def update_env_def)
  show ?thesis
    using u d fu fd
      update_delete_target_from_fetched_list
        [OF u, where wname = "''client0''" and i = 5 and us = two_records
           and r = "\<lparr>cr_status = 200, cr_json = Inr (JList (map user_data_json two_records))\<rparr>"]
      update_delete_target_from_fetched_list
        [OF d, where wname = "''client0''" and i = 5 and us = "[]"
           and r = "\<lparr>cr_status = 200, cr_json = Inr (JList (map user_data_json []))\<rparr>"]
    by (simp add: c n)
qed

end
